theory Spec2Isabelle
  imports Main
begin

section \<open>Data model\<close>

text \<open>
  \<^verbatim>\<open>class State(TypedDict)\<close> of \<^verbatim>\<open>customer_service_agent.ipynb\<close>: a Python
  dictionary with the keys \<^verbatim>\<open>query\<close>, \<^verbatim>\<open>category\<close>, \<^verbatim>\<open>sentiment\<close> and
  \<^verbatim>\<open>response\<close>, all of type \<^verbatim>\<open>str\<close>. A TypedDict is not checked when the program
  runs, and \<^verbatim>\<open>run_agent\<close> starts the graph on \<^verbatim>\<open>{"query": query}\<close>, so a key can be
  absent: every field is a \<open>string option\<close>, \<open>None\<close> for an absent key. The same
  type is used for the partial update a node returns (a dictionary holding only the
  keys the node writes).
\<close>

record State =
  query :: "string option"
  category :: "string option"
  sentiment :: "string option"
  response :: "string option"

text \<open>
  \<^verbatim>\<open>class QueryDetails(BaseModel)\<close>: the structured answer of the classifier, two
  strings with no further constraint. The selectors carry a prefix because the field
  names are those of \<open>State\<close>.
\<close>

datatype QueryDetails = QueryDetails (qd_sentiment: string) (qd_category: string)

text \<open>
  What a run can raise: a dictionary lookup of an absent key, an attribute read on
  \<^verbatim>\<open>None\<close>, an exception of an external call (the language model), the step limit
  of the graph library, and the library's refusal of a step limit below one.
\<close>

datatype error =
  KeyError string | AttributeError string | Raised string | GraphRecursionError | ValueError

definition no_update :: State where
  "no_update = \<lparr>query = None, category = None, sentiment = None, response = None\<rparr>"

section \<open>Node functions\<close>

text \<open>
  \<^verbatim>\<open>get_sentiment_and_category\<close>. The chain \<^verbatim>\<open>prompt | llm.with_structured_output(QueryDetails)\<close>
  is the external classifier: a function of the query that returns a
  \<open>QueryDetails\<close>, returns \<^verbatim>\<open>None\<close> (a reply of the model that holds no
  structured answer), or raises (\<open>Inl\<close> with the exception's text). The node looks
  up \<^verbatim>\<open>state["query"]\<close>, calls the classifier, and reads \<^verbatim>\<open>response.sentiment\<close>
  and then \<^verbatim>\<open>response.category\<close> with no check: on \<^verbatim>\<open>None\<close> the first read
  raises \<^verbatim>\<open>AttributeError\<close>; otherwise the two strings are returned as they came
  back.
\<close>

definition get_sentiment_and_category ::
  "(string \<Rightarrow> string + QueryDetails option) \<Rightarrow> State \<Rightarrow> error + State option" where
  "get_sentiment_and_category classify st =
     (case query st of
        None \<Rightarrow> Inl (KeyError ''query'')
      | Some q \<Rightarrow>
          (case classify q of
             Inl e \<Rightarrow> Inl (Raised e)
           | Inr None \<Rightarrow> Inl (AttributeError ''sentiment'')
           | Inr (Some r) \<Rightarrow>
               Inr (Some (no_update\<lparr>sentiment := Some (qd_sentiment r),
                                     category := Some (qd_category r)\<rparr>))))"

text \<open>
  \<^verbatim>\<open>route_query_from_sentiment\<close>: \<^verbatim>\<open>match state["sentiment"]\<close> with the case
  \<^verbatim>\<open>"Negative"\<close> and the wildcard case.
\<close>

definition route_query_from_sentiment :: "State \<Rightarrow> error + string" where
  "route_query_from_sentiment st =
     (case sentiment st of
        None \<Rightarrow> Inl (KeyError ''sentiment'')
      | Some s \<Rightarrow> if s = ''Negative'' then Inr ''escalate'' else Inr ''handle_queries'')"

definition escalation_message :: string where
  "escalation_message =
     ''This query has been escalated to a customer service representative due to its negative sentiment.''"

definition escalate :: "State \<Rightarrow> error + State option" where
  "escalate st = Inr (Some (no_update\<lparr>response := Some escalation_message\<rparr>))"

text \<open>
  \<^verbatim>\<open>handle_queries\<close>. The prompt is the f-string of the source, which reads
  \<^verbatim>\<open>state['category']\<close> and then \<^verbatim>\<open>state['query']\<close>; \<^verbatim>\<open>llm.invoke(prompt).content\<close>
  is the external generator, a function of the prompt that returns the text or raises.
\<close>

definition handle_queries_prompt :: "string \<Rightarrow> string \<Rightarrow> string" where
  "handle_queries_prompt c q =
     ''Generate a '' @ c @ '' support response for the following query: '' @ [CHR 0x22] @ q
       @ [CHR 0x22] @ '' , under 50 words.''"

definition handle_queries :: "(string \<Rightarrow> string + string) \<Rightarrow> State \<Rightarrow> error + State option" where
  "handle_queries generate st =
     (case category st of
        None \<Rightarrow> Inl (KeyError ''category'')
      | Some c \<Rightarrow>
          (case query st of
             None \<Rightarrow> Inl (KeyError ''query'')
           | Some q \<Rightarrow>
               (case generate (handle_queries_prompt c q) of
                  Inl e \<Rightarrow> Inl (Raised e)
                | Inr r \<Rightarrow> Inr (Some (no_update\<lparr>response := Some r\<rparr>)))))"

text \<open>
  \<^verbatim>\<open>record_to_database\<close>. The body of the \<^verbatim>\<open>try\<close> (reading \<^verbatim>\<open>MONGO_URL\<close>,
  connecting, \<^verbatim>\<open>insert_one(payload)\<close>) is the external store: a function of the
  State that returns the inserted id or raises. \<^verbatim>\<open>except Exception\<close> catches
  whatever it raises. Both branches print one line and fall off the end of the
  function, so the node returns Python's \<^verbatim>\<open>None\<close>: the result is the printed lines
  and no update. \<^verbatim>\<open>print("An error occurred: ", e)\<close> separates its two arguments
  by a space. \<^verbatim>\<open>insert_one\<close> adds an \<^verbatim>\<open>_id\<close> key to the dictionary it is given;
  that dictionary is the one the library built for this call, and the node returns
  no update, so the State of the graph is not touched.
\<close>

definition record_to_database ::
  "(State \<Rightarrow> string + string) \<Rightarrow> State \<Rightarrow> string list \<times> (error + State option)" where
  "record_to_database store st =
     (case store st of
        Inr inserted_id \<Rightarrow> ([''Inserted document ID: '' @ inserted_id], Inr None)
      | Inl e \<Rightarrow> ([''An error occurred:  '' @ e], Inr None))"

section \<open>The graph and its execution\<close>

text \<open>
  The \<^verbatim>\<open>StateGraph\<close> as the builder cell wires it: named nodes, edges, and
  conditional edges (a source node, its router, the candidate targets). A node maps
  the State it receives to the lines it prints and to a partial update, \<^verbatim>\<open>None\<close>,
  or an exception.
\<close>

type_synonym node_fn = "State \<Rightarrow> string list \<times> (error + State option)"

record Graph =
  nodes :: "(string \<times> node_fn) list"
  edges :: "(string \<times> string) list"
  branches :: "(string \<times> (State \<Rightarrow> error + string) \<times> string list) list"

definition START :: string where
  "START = ''__start__''"

definition END :: string where
  "END = ''__end__''"

definition silent :: "(State \<Rightarrow> error + State option) \<Rightarrow> node_fn" where
  "silent f st = ([], f st)"

definition builder ::
  "(string \<Rightarrow> string + QueryDetails option) \<Rightarrow> (string \<Rightarrow> string + string) \<Rightarrow>
   (State \<Rightarrow> string + string) \<Rightarrow> Graph" where
  "builder classify generate store =
     \<lparr>nodes =
        [(''get_sentiment_and_category'', silent (get_sentiment_and_category classify)),
         (''escalate'', silent escalate),
         (''handle_queries'', silent (handle_queries generate)),
         (''record_to_database'', record_to_database store)],
      edges =
        [(START, ''get_sentiment_and_category''),
         (''handle_queries'', ''record_to_database''),
         (''escalate'', ''record_to_database''),
         (''record_to_database'', END)],
      branches =
        [(''get_sentiment_and_category'', route_query_from_sentiment,
          [''escalate'', ''handle_queries''])]\<rparr>"

text \<open>
  The graph library's execution, for a graph in which one node is active at a time
  (as in this one: every node has one outgoing edge or one conditional edge). Each
  state key is a last-value channel: a key a node returns replaces the stored value,
  a key it leaves out keeps it, and \<^verbatim>\<open>None\<close> changes nothing.
\<close>

definition merge_update :: "State \<Rightarrow> State option \<Rightarrow> State" where
  "merge_update st u =
     (case u of
        None \<Rightarrow> st
      | Some w \<Rightarrow>
          \<lparr>query = (case query w of None \<Rightarrow> query st | Some v \<Rightarrow> Some v),
           category = (case category w of None \<Rightarrow> category st | Some v \<Rightarrow> Some v),
           sentiment = (case sentiment w of None \<Rightarrow> sentiment st | Some v \<Rightarrow> Some v),
           response = (case response w of None \<Rightarrow> response st | Some v \<Rightarrow> Some v)\<rparr>)"

text \<open>
  The successor of a node: a conditional edge calls its router on the State after
  the node's update and looks the answer up among the candidates (an answer outside
  them is a failed lookup); otherwise the plain edge; a node with neither ends the
  walk.
\<close>

definition next_node :: "Graph \<Rightarrow> string \<Rightarrow> State \<Rightarrow> error + string" where
  "next_node g n st =
     (case map_of (branches g) n of
        Some (router, ends) \<Rightarrow>
          (case router st of
             Inl e \<Rightarrow> Inl e
           | Inr t \<Rightarrow> if t \<in> set ends then Inr t else Inl (KeyError t))
      | None \<Rightarrow> (case map_of (edges g) n of Some t \<Rightarrow> Inr t | None \<Rightarrow> Inr END))"

text \<open>
  A run records the nodes it invoked, each with the State handed to it, the lines
  printed, and the final State or the exception that ended it.
\<close>

record Run =
  history :: "(string \<times> State) list"
  printed :: "string list"
  result :: "error + State"

text \<open>
  The walk, with the number of steps that are left. The library tests the step
  budget before it looks whether anything is left to run: with the budget used up
  it raises its recursion error (its guard against cycles), also when the walk has
  just reached \<open>END\<close>. So a walk that invokes three nodes needs a limit of four.
\<close>

fun walk :: "Graph \<Rightarrow> nat \<Rightarrow> string \<Rightarrow> State \<Rightarrow> Run" where
  "walk g 0 n st = \<lparr>history = [], printed = [], result = Inl GraphRecursionError\<rparr>"
| "walk g (Suc limit) n st =
     (if n = END then \<lparr>history = [], printed = [], result = Inr st\<rparr>
      else
        (case map_of (nodes g) n of
           None \<Rightarrow> \<lparr>history = [], printed = [], result = Inl (KeyError n)\<rparr>
         | Some f \<Rightarrow>
             (case f st of
                (out, Inl e) \<Rightarrow> \<lparr>history = [(n, st)], printed = out, result = Inl e\<rparr>
              | (out, Inr u) \<Rightarrow>
                  (case next_node g n (merge_update st u) of
                     Inl e \<Rightarrow> \<lparr>history = [(n, st)], printed = out, result = Inl e\<rparr>
                   | Inr n' \<Rightarrow>
                       (let r = walk g limit n' (merge_update st u)
                        in r\<lparr>history := (n, st) # history r,
                             printed := out @ printed r\<rparr>)))))"

definition recursion_limit :: nat where
  "recursion_limit = 25"

text \<open>
  \<^verbatim>\<open>graph.invoke(input, {"recursion_limit": limit})\<close>: the library refuses a limit
  below one; otherwise the walk starts at the target of the edge from \<open>START\<close>.
  \<^verbatim>\<open>graph.invoke(input)\<close>, as \<^verbatim>\<open>run_agent\<close> calls it, takes the library's default
  limit.
\<close>

definition graph_invoke_with_limit :: "Graph \<Rightarrow> nat \<Rightarrow> State \<Rightarrow> Run" where
  "graph_invoke_with_limit g limit input =
     (if limit = 0 then \<lparr>history = [], printed = [], result = Inl ValueError\<rparr>
      else
        (case map_of (edges g) START of
           None \<Rightarrow> \<lparr>history = [], printed = [], result = Inl (KeyError START)\<rparr>
         | Some n \<Rightarrow> walk g limit n input))"

definition graph_invoke :: "Graph \<Rightarrow> State \<Rightarrow> Run" where
  "graph_invoke g input = graph_invoke_with_limit g recursion_limit input"

text \<open>
  \<^verbatim>\<open>run_agent(query)\<close> invokes the graph on \<^verbatim>\<open>{"query": query}\<close> and prints the
  query and three fields of the result; it returns nothing. The model returns the
  Run of the graph and every line printed, or the exception.
\<close>

definition initial_state :: "string \<Rightarrow> State" where
  "initial_state q = \<lparr>query = Some q, category = None, sentiment = None, response = None\<rparr>"

definition getitem :: "string option \<Rightarrow> string \<Rightarrow> error + string" where
  "getitem field key = (case field of None \<Rightarrow> Inl (KeyError key) | Some v \<Rightarrow> Inr v)"

definition run_agent ::
  "(string \<Rightarrow> string + QueryDetails option) \<Rightarrow> (string \<Rightarrow> string + string) \<Rightarrow>
   (State \<Rightarrow> string + string) \<Rightarrow> string \<Rightarrow> string list \<times> (error + unit)" where
  "run_agent classify generate store q =
     (let r = graph_invoke (builder classify generate store) (initial_state q)
      in case result r of
           Inl e \<Rightarrow> (printed r, Inl e)
         | Inr fin \<Rightarrow>
             (case getitem (sentiment fin) ''sentiment'' of
                Inl e \<Rightarrow> (printed r @ [''Query:  '' @ q], Inl e)
              | Inr s \<Rightarrow>
                  (case getitem (category fin) ''category'' of
                     Inl e \<Rightarrow> (printed r @ [''Query:  '' @ q, ''Sentiment:  '' @ s], Inl e)
                   | Inr c \<Rightarrow>
                       (case getitem (response fin) ''response'' of
                          Inl e \<Rightarrow>
                            (printed r @ [''Query:  '' @ q, ''Sentiment:  '' @ s,
                                          ''Category:  '' @ c], Inl e)
                        | Inr a \<Rightarrow>
                            (printed r @ [''Query:  '' @ q, ''Sentiment:  '' @ s,
                                          ''Category:  '' @ c, ''Response:  '' @ a,
                                          ''-x-x-x-x-x-x-x-x-''], Inr ())))))"

text \<open>The line \<^verbatim>\<open>record_to_database\<close> prints for a State.\<close>

definition report :: "(State \<Rightarrow> string + string) \<Rightarrow> State \<Rightarrow> string list" where
  "report store st = fst (record_to_database store st)"

text \<open>
  A node is terminal when the walk ends after it: it has no conditional edge, and no
  edge or only the edge to \<open>END\<close>. The arrows of the graph are its edges and, for a
  conditional edge, one arrow to each candidate.
\<close>

definition terminal :: "Graph \<Rightarrow> string \<Rightarrow> bool" where
  "terminal g n =
     (map_of (branches g) n = None \<and>
      (case map_of (edges g) n of None \<Rightarrow> True | Some t \<Rightarrow> t = END))"


section \<open>Sample capabilities\<close>

text \<open>
  Concrete external capabilities for the closed examples: a classifier that answers
  by a table (one query gets a category outside General, Billing and Technical, one
  makes the call raise, one gets no structured answer), a generator with a fixed answer and one that always raises,
  a store that accepts every record and one that always raises.
\<close>

definition sample_classify :: "string \<Rightarrow> string + QueryDetails option" where
  "sample_classify q =
     (if q = ''Terrible service, never again.''
      then Inr (Some (QueryDetails ''Negative'' ''General''))
      else if q = ''Where is my parcel?'' then Inr (Some (QueryDetails ''Neutral'' ''Shipping''))
      else if q = ''Is anyone there?'' then Inl ''APIConnectionError''
      else if q = ''...'' then Inr None
      else Inr (Some (QueryDetails ''Neutral'' ''General'')))"

definition sample_generate :: "string \<Rightarrow> string + string" where
  "sample_generate prompt = Inr ''Thank you for contacting support.''"

definition failing_generate :: "string \<Rightarrow> string + string" where
  "failing_generate prompt = Inl ''RateLimitError''"

definition sample_store :: "State \<Rightarrow> string + string" where
  "sample_store st = Inr ''67ece141cbd07acc4db059d5''"

definition failing_store :: "State \<Rightarrow> string + string" where
  "failing_store st = Inl ''ServerSelectionTimeoutError''"

section \<open>Executing the graph of the notebook\<close>

lemma map_of_nodes:
  "map_of (nodes (builder c g s)) ''get_sentiment_and_category'' =
     Some (silent (get_sentiment_and_category c))"
  "map_of (nodes (builder c g s)) ''escalate'' = Some (silent escalate)"
  "map_of (nodes (builder c g s)) ''handle_queries'' = Some (silent (handle_queries g))"
  "map_of (nodes (builder c g s)) ''record_to_database'' = Some (record_to_database s)"
  by (simp_all add: builder_def)

lemma next_node_builder:
  "next_node (builder c g s) ''get_sentiment_and_category'' st = route_query_from_sentiment st"
  "next_node (builder c g s) ''escalate'' st = Inr ''record_to_database''"
  "next_node (builder c g s) ''handle_queries'' st = Inr ''record_to_database''"
  "next_node (builder c g s) ''record_to_database'' st = Inr END"
  by (simp_all add: next_node_def builder_def START_def END_def route_query_from_sentiment_def
      split: option.splits sum.splits)

lemma entry_node: "map_of (edges (builder c g s)) START = Some ''get_sentiment_and_category''"
  by (simp add: builder_def)

lemma node_names_not_END:
  "''get_sentiment_and_category'' \<noteq> END" "''escalate'' \<noteq> END"
  "''handle_queries'' \<noteq> END" "''record_to_database'' \<noteq> END"
  by (simp_all add: END_def)

lemma walk_END:
  "walk g (Suc k) END st = \<lparr>history = [], printed = [], result = Inr st\<rparr>"
  by simp

lemma record_to_database_eq: "record_to_database s st = (report s st, Inr None)"
  by (simp add: report_def record_to_database_def split: sum.splits)

lemma merge_update_None: "merge_update st None = st"
  by (simp add: merge_update_def)

lemma merge_update_response:
  "merge_update st (Some (no_update\<lparr>response := Some r\<rparr>)) = st\<lparr>response := Some r\<rparr>"
  by (cases st) (simp add: merge_update_def no_update_def)

lemma merge_update_classification:
  "merge_update st (Some (no_update\<lparr>sentiment := Some x, category := Some y\<rparr>)) =
     st\<lparr>sentiment := Some x, category := Some y\<rparr>"
  by (cases st) (simp add: merge_update_def no_update_def)

text \<open>
  One step of the walk at each node of the graph, for a budget given as a successor.
  After the last node one more unit of budget is needed to reach \<open>END\<close>.
\<close>

lemma walk_record_Suc:
  "walk (builder c g s) (Suc (Suc k)) ''record_to_database'' st =
     \<lparr>history = [(''record_to_database'', st)], printed = report s st, result = Inr st\<rparr>"
  apply (subst walk.simps(2))
  apply (simp add: node_names_not_END map_of_nodes next_node_builder walk_END
      record_to_database_eq merge_update_None del: walk.simps)
  done

lemma walk_record_exhausted:
  "walk (builder c g s) (Suc 0) ''record_to_database'' st =
     \<lparr>history = [(''record_to_database'', st)], printed = report s st,
      result = Inl GraphRecursionError\<rparr>"
  by (simp add: node_names_not_END map_of_nodes next_node_builder
      record_to_database_eq merge_update_None)

lemma walk_escalate_Suc:
  "walk (builder c g s) (Suc (Suc (Suc k))) ''escalate'' st =
     \<lparr>history =
        [(''escalate'', st),
         (''record_to_database'', st\<lparr>response := Some escalation_message\<rparr>)],
      printed = report s (st\<lparr>response := Some escalation_message\<rparr>),
      result = Inr (st\<lparr>response := Some escalation_message\<rparr>)\<rparr>"
  apply (subst walk.simps(2))
  apply (simp add: node_names_not_END map_of_nodes next_node_builder walk_record_Suc
      silent_def escalate_def del: walk.simps)
  apply (simp add: merge_update_response)
  done

lemma walk_handle_queries_Suc:
  "walk (builder c g s) (Suc (Suc (Suc k))) ''handle_queries'' st =
     (case handle_queries g st of
        Inl e \<Rightarrow> \<lparr>history = [(''handle_queries'', st)], printed = [], result = Inl e\<rparr>
      | Inr u \<Rightarrow>
          \<lparr>history = [(''handle_queries'', st), (''record_to_database'', merge_update st u)],
           printed = report s (merge_update st u),
           result = Inr (merge_update st u)\<rparr>)"
  apply (subst walk.simps(2))
  apply (simp add: node_names_not_END map_of_nodes next_node_builder walk_record_Suc
      silent_def del: walk.simps split: sum.splits)
  done

lemma walk_classify_Suc:
  "walk (builder c g s) (Suc k) ''get_sentiment_and_category'' st =
     (case get_sentiment_and_category c st of
        Inl e \<Rightarrow>
          \<lparr>history = [(''get_sentiment_and_category'', st)], printed = [], result = Inl e\<rparr>
      | Inr u \<Rightarrow>
          (case route_query_from_sentiment (merge_update st u) of
             Inl e \<Rightarrow>
               \<lparr>history = [(''get_sentiment_and_category'', st)], printed = [],
                result = Inl e\<rparr>
           | Inr n' \<Rightarrow>
               (let r = walk (builder c g s) k n' (merge_update st u)
                in r\<lparr>history := (''get_sentiment_and_category'', st) # history r\<rparr>)))"
  apply (subst walk.simps(2))
  apply (simp add: node_names_not_END map_of_nodes next_node_builder silent_def
      del: walk.simps split: sum.splits)
  done

text \<open>The same steps for any budget that is large enough.\<close>

lemma Suc3_minus: "3 \<le> k \<Longrightarrow> Suc (Suc (Suc (k - 3))) = k"
  by simp

lemma walk_escalate:
  "3 \<le> k \<Longrightarrow> walk (builder c g s) k ''escalate'' st =
     \<lparr>history =
        [(''escalate'', st),
         (''record_to_database'', st\<lparr>response := Some escalation_message\<rparr>)],
      printed = report s (st\<lparr>response := Some escalation_message\<rparr>),
      result = Inr (st\<lparr>response := Some escalation_message\<rparr>)\<rparr>"
  using walk_escalate_Suc [of c g s "k - 3" st] by (simp only: Suc3_minus)

lemma walk_handle_queries:
  "3 \<le> k \<Longrightarrow> walk (builder c g s) k ''handle_queries'' st =
     (case handle_queries g st of
        Inl e \<Rightarrow> \<lparr>history = [(''handle_queries'', st)], printed = [], result = Inl e\<rparr>
      | Inr u \<Rightarrow>
          \<lparr>history = [(''handle_queries'', st), (''record_to_database'', merge_update st u)],
           printed = report s (merge_update st u),
           result = Inr (merge_update st u)\<rparr>)"
  using walk_handle_queries_Suc [of c g s "k - 3" st] by (simp only: Suc3_minus)

lemma walk_classify:
  "4 \<le> k \<Longrightarrow> walk (builder c g s) k ''get_sentiment_and_category'' st =
     (case get_sentiment_and_category c st of
        Inl e \<Rightarrow>
          \<lparr>history = [(''get_sentiment_and_category'', st)], printed = [], result = Inl e\<rparr>
      | Inr u \<Rightarrow>
          (case route_query_from_sentiment (merge_update st u) of
             Inl e \<Rightarrow>
               \<lparr>history = [(''get_sentiment_and_category'', st)], printed = [],
                result = Inl e\<rparr>
           | Inr n' \<Rightarrow>
               (let r = walk (builder c g s) (k - 1) n' (merge_update st u)
                in r\<lparr>history := (''get_sentiment_and_category'', st) # history r\<rparr>)))"
  using walk_classify_Suc [of c g s "k - 1" st] by simp

text \<open>
  The six ways a walk from the entry node goes, for any limit of at least four: the
  query key is absent; the classifier raises; the classifier returns \<^verbatim>\<open>None\<close>; the
  sentiment is Negative; the generator raises; the generator answers.
\<close>

lemma walk_no_query:
  assumes "4 \<le> k" and "query st = None"
  shows "walk (builder c g s) k ''get_sentiment_and_category'' st =
    \<lparr>history = [(''get_sentiment_and_category'', st)], printed = [],
     result = Inl (KeyError ''query'')\<rparr>"
  using assms by (simp add: walk_classify get_sentiment_and_category_def)

lemma walk_classifier_raises:
  assumes "4 \<le> k" and "query st = Some q" and "c q = Inl e"
  shows "walk (builder c g s) k ''get_sentiment_and_category'' st =
    \<lparr>history = [(''get_sentiment_and_category'', st)], printed = [],
     result = Inl (Raised e)\<rparr>"
  using assms by (simp add: walk_classify get_sentiment_and_category_def)

lemma walk_no_answer:
  assumes "4 \<le> k" and "query st = Some q" and "c q = Inr None"
  shows "walk (builder c g s) k ''get_sentiment_and_category'' st =
    \<lparr>history = [(''get_sentiment_and_category'', st)], printed = [],
     result = Inl (AttributeError ''sentiment'')\<rparr>"
  using assms by (simp add: walk_classify get_sentiment_and_category_def)

lemma walk_negative:
  assumes "4 \<le> k" and "query st = Some q"
    and "c q = Inr (Some (QueryDetails ''Negative'' cat))"
  shows "walk (builder c g s) k ''get_sentiment_and_category'' st =
    \<lparr>history =
       [(''get_sentiment_and_category'', st),
        (''escalate'', st\<lparr>sentiment := Some ''Negative'', category := Some cat\<rparr>),
        (''record_to_database'',
         st\<lparr>sentiment := Some ''Negative'', category := Some cat,
            response := Some escalation_message\<rparr>)],
     printed =
       report s (st\<lparr>sentiment := Some ''Negative'', category := Some cat,
                     response := Some escalation_message\<rparr>),
     result =
       Inr (st\<lparr>sentiment := Some ''Negative'', category := Some cat,
               response := Some escalation_message\<rparr>)\<rparr>"
  using assms
  by (simp add: walk_classify get_sentiment_and_category_def merge_update_classification
      route_query_from_sentiment_def walk_escalate)

lemma walk_generator_raises:
  assumes "4 \<le> k" and "query st = Some q" and "c q = Inr (Some (QueryDetails sen cat))"
    and "sen \<noteq> ''Negative''" and "g (handle_queries_prompt cat q) = Inl e"
  shows "walk (builder c g s) k ''get_sentiment_and_category'' st =
    \<lparr>history =
       [(''get_sentiment_and_category'', st),
        (''handle_queries'', st\<lparr>sentiment := Some sen, category := Some cat\<rparr>)],
     printed = [],
     result = Inl (Raised e)\<rparr>"
  using assms
  by (simp add: walk_classify get_sentiment_and_category_def merge_update_classification
      route_query_from_sentiment_def walk_handle_queries handle_queries_def)

lemma walk_generated:
  assumes "4 \<le> k" and "query st = Some q" and "c q = Inr (Some (QueryDetails sen cat))"
    and "sen \<noteq> ''Negative''" and "g (handle_queries_prompt cat q) = Inr resp"
  shows "walk (builder c g s) k ''get_sentiment_and_category'' st =
    \<lparr>history =
       [(''get_sentiment_and_category'', st),
        (''handle_queries'', st\<lparr>sentiment := Some sen, category := Some cat\<rparr>),
        (''record_to_database'',
         st\<lparr>sentiment := Some sen, category := Some cat, response := Some resp\<rparr>)],
     printed =
       report s (st\<lparr>sentiment := Some sen, category := Some cat, response := Some resp\<rparr>),
     result =
       Inr (st\<lparr>sentiment := Some sen, category := Some cat, response := Some resp\<rparr>)\<rparr>"
  using assms
  by (simp add: walk_classify get_sentiment_and_category_def merge_update_classification
      route_query_from_sentiment_def walk_handle_queries handle_queries_def
      merge_update_response)

lemma graph_invoke_with_limit_walk:
  "0 < limit \<Longrightarrow> graph_invoke_with_limit (builder c g s) limit st =
     walk (builder c g s) limit ''get_sentiment_and_category'' st"
  by (simp add: graph_invoke_with_limit_def entry_node)

lemma graph_invoke_walk:
  "graph_invoke (builder c g s) st =
     walk (builder c g s) recursion_limit ''get_sentiment_and_category'' st"
  by (simp add: graph_invoke_def graph_invoke_with_limit_walk recursion_limit_def)

lemma recursion_limit_enough: "4 \<le> recursion_limit"
  by (simp add: recursion_limit_def)

lemmas run_no_query =
  walk_no_query [OF recursion_limit_enough, folded graph_invoke_walk]
lemmas run_classifier_raises =
  walk_classifier_raises [OF recursion_limit_enough, folded graph_invoke_walk]
lemmas run_no_answer =
  walk_no_answer [OF recursion_limit_enough, folded graph_invoke_walk]
lemmas run_negative =
  walk_negative [OF recursion_limit_enough, folded graph_invoke_walk]
lemmas run_generator_raises =
  walk_generator_raises [OF recursion_limit_enough, folded graph_invoke_walk]
lemmas run_generated =
  walk_generated [OF recursion_limit_enough, folded graph_invoke_walk]

text \<open>Every run is one of the six.\<close>

lemma run_cases
  [case_names no_query classifier_raises no_answer negative generator_raises generated]:
  fixes st :: State
  obtains
    "query st = None"
  | q e where "query st = Some q" and "c q = Inl e"
  | q where "query st = Some q" and "c q = Inr None"
  | q cat where "query st = Some q" and "c q = Inr (Some (QueryDetails ''Negative'' cat))"
  | q sen cat e where "query st = Some q" and "c q = Inr (Some (QueryDetails sen cat))"
      and "sen \<noteq> ''Negative''" and "g (handle_queries_prompt cat q) = Inl e"
  | q sen cat resp where "query st = Some q" and "c q = Inr (Some (QueryDetails sen cat))"
      and "sen \<noteq> ''Negative''" and "g (handle_queries_prompt cat q) = Inr resp"
proof (cases "query st")
  case None
  then show ?thesis by (rule that(1))
next
  case (Some q)
  show ?thesis
  proof (cases "c q")
    case (Inl e)
    with Some show ?thesis by (rule that(2))
  next
    case (Inr answer)
    show ?thesis
    proof (cases answer)
      case None
      with Some Inr show ?thesis by (auto intro: that(3))
    next
      case parsed: (Some d)
      obtain sen cat where d: "d = QueryDetails sen cat" by (cases d)
      show ?thesis
      proof (cases "sen = ''Negative''")
        case True
        with Some Inr parsed d show ?thesis by (auto intro: that(4))
      next
        case False
        show ?thesis
        proof (cases "g (handle_queries_prompt cat q)")
          case (Inl e)
          with Some Inr parsed d False show ?thesis by (auto intro: that(5))
        next
          case gen: (Inr resp)
          with Some Inr parsed d False show ?thesis by (auto intro: that(6))
        qed
      qed
    qed
  qed
qed

text \<open>
  With a limit of three the three nodes run and the library then raises: the budget
  is used up when the walk reaches \<open>END\<close>.
\<close>

lemma limit_three_raises:
  assumes "query st = Some q" and "c q = Inr (Some (QueryDetails ''Negative'' cat))"
  shows "result (graph_invoke_with_limit (builder c g s) 3 st) = Inl GraphRecursionError"
    and "map fst (history (graph_invoke_with_limit (builder c g s) 3 st)) =
      [''get_sentiment_and_category'', ''escalate'', ''record_to_database'']"
proof -
  have three: "(3::nat) = Suc (Suc (Suc 0))"
    by simp
  have run: "graph_invoke_with_limit (builder c g s) 3 st =
      walk (builder c g s) (Suc (Suc (Suc 0))) ''get_sentiment_and_category'' st"
    by (simp only: graph_invoke_with_limit_walk three zero_less_Suc)
  have esc: "walk (builder c g s) (Suc (Suc 0)) ''escalate'' st' =
      \<lparr>history =
         [(''escalate'', st'),
          (''record_to_database'', st'\<lparr>response := Some escalation_message\<rparr>)],
       printed = report s (st'\<lparr>response := Some escalation_message\<rparr>),
       result = Inl GraphRecursionError\<rparr>" for st'
    apply (subst walk.simps(2))
    apply (simp add: node_names_not_END map_of_nodes next_node_builder walk_record_exhausted
        silent_def escalate_def del: walk.simps)
    apply (simp add: merge_update_response)
    done
  have all: "walk (builder c g s) (Suc (Suc (Suc 0))) ''get_sentiment_and_category'' st =
      \<lparr>history =
         [(''get_sentiment_and_category'', st),
          (''escalate'', st\<lparr>sentiment := Some ''Negative'', category := Some cat\<rparr>),
          (''record_to_database'',
           st\<lparr>sentiment := Some ''Negative'', category := Some cat,
              response := Some escalation_message\<rparr>)],
       printed =
         report s (st\<lparr>sentiment := Some ''Negative'', category := Some cat,
                       response := Some escalation_message\<rparr>),
       result = Inl GraphRecursionError\<rparr>"
    apply (subst walk_classify_Suc)
    using assms
    apply (simp add: get_sentiment_and_category_def merge_update_classification
        route_query_from_sentiment_def esc del: walk.simps)
    done
  show "result (graph_invoke_with_limit (builder c g s) 3 st) = Inl GraphRecursionError"
    by (simp only: run all) simp
  show "map fst (history (graph_invoke_with_limit (builder c g s) 3 st)) =
      [''get_sentiment_and_category'', ''escalate'', ''record_to_database'']"
    by (simp only: run all) simp
qed

lemmas run_simps =
  run_no_query run_classifier_raises run_no_answer run_negative run_generator_raises
  run_generated

lemma terminal_builder:
  "terminal (builder c g s) ''record_to_database''"
  "\<not> terminal (builder c g s) ''get_sentiment_and_category''"
  "\<not> terminal (builder c g s) ''escalate''"
  "\<not> terminal (builder c g s) ''handle_queries''"
  by (simp_all add: terminal_def builder_def START_def END_def)

text \<open>
  A walk over any graph whose nodes return no \<open>query\<close> key hands the same query to
  every node and returns it in the final State: by induction on the step limit.
\<close>

lemma query_merge_update:
  "query (merge_update st u) =
     (case u of None \<Rightarrow> query st
      | Some w \<Rightarrow> (case query w of None \<Rightarrow> query st | Some v \<Rightarrow> Some v))"
  by (simp add: merge_update_def split: option.splits)

lemma walk_keeps_query:
  assumes frame:
    "\<And>n f s out w. map_of (nodes g) n = Some f \<Longrightarrow> f s = (out, Inr (Some w)) \<Longrightarrow>
       query w = None"
  shows "(\<forall>(m, s) \<in> set (history (walk g k n st)). query s = query st)
    \<and> (\<forall>fin. result (walk g k n st) = Inr fin \<longrightarrow> query fin = query st)"
proof (induction k arbitrary: n st)
  case 0
  show ?case by simp
next
  case (Suc limit)
  show ?case
  proof (cases "n = END")
    case True
    then show ?thesis by simp
  next
    case notEnd: False
    show ?thesis
    proof (cases "map_of (nodes g) n")
      case None
      with notEnd show ?thesis by simp
    next
      case (Some f)
      obtain out x where fx: "f st = (out, x)" by (cases "f st")
      show ?thesis
      proof (cases x)
        case (Inl e)
        with notEnd Some fx show ?thesis by simp
      next
        case (Inr u)
        have keep: "query (merge_update st u) = query st"
          using frame [OF Some] fx Inr
          by (cases u) (simp_all add: query_merge_update)
        show ?thesis
        proof (cases "next_node g n (merge_update st u)")
          case (Inl e)
          with notEnd Some fx Inr show ?thesis by simp
        next
          case nx: (Inr n')
          have step: "walk g (Suc limit) n st =
              (let r = walk g limit n' (merge_update st u)
               in r\<lparr>history := (n, st) # history r, printed := out @ printed r\<rparr>)"
            using notEnd Some fx Inr nx by simp
          define r where "r = walk g limit n' (merge_update st u)"
          have ih_history: "\<forall>(m, s) \<in> set (history r). query s = query st"
            and ih_result: "\<forall>fin. result r = Inr fin \<longrightarrow> query fin = query st"
            using Suc.IH [of n' "merge_update st u"] unfolding r_def keep by blast+
          have unfolded: "walk g (Suc limit) n st =
              r\<lparr>history := (n, st) # history r, printed := out @ printed r\<rparr>"
            unfolding step r_def Let_def ..
          show ?thesis
            unfolding unfolded
          proof (intro conjI ballI allI impI)
            fix a
            assume "a \<in> set (history (r\<lparr>history := (n, st) # history r,
              printed := out @ printed r\<rparr>))"
            then have "a = (n, st) \<or> a \<in> set (history r)"
              by simp
            then show "case a of (m, s) \<Rightarrow> query s = query st"
              using ih_history by auto
          next
            fix fin
            assume "result (r\<lparr>history := (n, st) # history r,
              printed := out @ printed r\<rparr>) = Inr fin"
            then have "result r = Inr fin"
              by simp
            then show "query fin = query st"
              using ih_result by blast
          qed
        qed
      qed
    qed
  qed
qed

lemma builder_node_keeps_query:
  assumes "map_of (nodes (builder c g s)) n = Some f" and "f st = (out, Inr (Some w))"
  shows "query w = None"
proof -
  from assms(1) have
    "f = silent (get_sentiment_and_category c) \<or> f = silent escalate
      \<or> f = silent (handle_queries g) \<or> f = record_to_database s"
    by (auto simp add: builder_def split: if_splits)
  with assms(2) show ?thesis
    by (auto simp add: silent_def get_sentiment_and_category_def escalate_def
        handle_queries_def record_to_database_eq no_update_def
        split: option.splits sum.splits)
qed



section \<open>The router\<close>

text \<open>
  C1. The router reads the sentiment field only: on every State whose sentiment is
  \<open>s\<close>, whatever the other fields hold, it returns \<open>escalate\<close> when \<open>s\<close> is
  \<open>Negative\<close> and \<open>handle_queries\<close> for every other string.
\<close>

theorem route_query_from_sentiment_policy:
  "route_query_from_sentiment (st\<lparr>sentiment := Some s\<rparr>) =
     Inr (if s = ''Negative'' then ''escalate'' else ''handle_queries'')"
  by (simp add: route_query_from_sentiment_def)

theorem route_query_from_sentiment_policy_witness:
  "route_query_from_sentiment
     \<lparr>query = Some ''hello'', category = Some ''General'', sentiment = Some ''Negative'',
      response = None\<rparr> = Inr ''escalate''
   \<and> route_query_from_sentiment
     \<lparr>query = Some ''hello'', category = Some ''General'', sentiment = Some ''Neutral'',
      response = None\<rparr> = Inr ''handle_queries''
   \<and> route_query_from_sentiment
     \<lparr>query = Some ''hello'', category = Some ''General'', sentiment = Some ''negative'',
      response = None\<rparr> = Inr ''handle_queries''"
  using route_query_from_sentiment_policy
    [where st = "\<lparr>query = Some ''hello'', category = Some ''General'', sentiment = None,
          response = None\<rparr>" and s = "''Negative''"]
    route_query_from_sentiment_policy
    [where st = "\<lparr>query = Some ''hello'', category = Some ''General'', sentiment = None,
          response = None\<rparr>" and s = "''Neutral''"]
    route_query_from_sentiment_policy
    [where st = "\<lparr>query = Some ''hello'', category = Some ''General'', sentiment = None,
          response = None\<rparr>" and s = "''negative''"]
  by simp

text \<open>
  C9. Routing has no hidden state: two States with equal sentiment get the same
  branch, whatever their other fields.
\<close>

theorem route_query_from_sentiment_deterministic:
  "sentiment a = sentiment b \<Longrightarrow>
     route_query_from_sentiment a = route_query_from_sentiment b"
  by (simp add: route_query_from_sentiment_def)

theorem route_query_from_sentiment_deterministic_witness:
  "route_query_from_sentiment
     \<lparr>query = Some ''first'', category = Some ''Billing'', sentiment = Some ''Positive'',
      response = None\<rparr>
   = route_query_from_sentiment
     \<lparr>query = Some ''second'', category = None, sentiment = Some ''Positive'',
      response = Some ''done''\<rparr>"
  using route_query_from_sentiment_deterministic
    [of "\<lparr>query = Some ''first'', category = Some ''Billing'',
          sentiment = Some ''Positive'', response = None\<rparr>"
        "\<lparr>query = Some ''second'', category = None, sentiment = Some ''Positive'',
          response = Some ''done''\<rparr>"]
  by simp

section \<open>Escalation\<close>

text \<open>
  C2. In every run whose classifier answers with the sentiment \<open>Negative\<close>, the run
  completes, the final response is exactly the text \<^emph>\<open>This query has been escalated to
  a customer service representative due to its negative sentiment.\<close>, the nodes
  invoked are the classification, \<open>escalate\<close> and \<open>record_to_database\<close>, so
  \<open>handle_queries\<close> is not invoked, and the run is the same whatever the generator
  is. In every run whatsoever, \<open>escalate\<close> and \<open>handle_queries\<close> are never both
  invoked.
\<close>

theorem negative_sentiment_escalates:
  "(query st = Some q \<and> classify q = Inr (Some (QueryDetails ''Negative'' cat)) \<longrightarrow>
      (\<exists>fin. result (graph_invoke (builder classify generate store) st) = Inr fin
             \<and> response fin =
                 Some ''This query has been escalated to a customer service representative due to its negative sentiment.'')
      \<and> map fst (history (graph_invoke (builder classify generate store) st)) =
          [''get_sentiment_and_category'', ''escalate'', ''record_to_database'']
      \<and> ''handle_queries'' \<notin> fst ` set (history (graph_invoke (builder classify generate store) st))
      \<and> graph_invoke (builder classify generate' store) st =
          graph_invoke (builder classify generate store) st)
   \<and> \<not> (''escalate'' \<in> fst ` set (history (graph_invoke (builder classify generate store) st))
         \<and> ''handle_queries'' \<in>
             fst ` set (history (graph_invoke (builder classify generate store) st)))"
proof (intro conjI impI)
  assume h: "query st = Some q \<and> classify q = Inr (Some (QueryDetails ''Negative'' cat))"
  note run = run_negative [of st q classify cat]
  from h show "\<exists>fin. result (graph_invoke (builder classify generate store) st) = Inr fin
             \<and> response fin =
                 Some ''This query has been escalated to a customer service representative due to its negative sentiment.''"
    by (simp add: run escalation_message_def)
  from h show "map fst (history (graph_invoke (builder classify generate store) st)) =
          [''get_sentiment_and_category'', ''escalate'', ''record_to_database'']"
    by (simp add: run)
  from h show "''handle_queries'' \<notin> fst ` set (history (graph_invoke (builder classify generate store) st))"
    by (simp add: run)
  from h show "graph_invoke (builder classify generate' store) st =
          graph_invoke (builder classify generate store) st"
    by (simp add: run)
next
  show "\<not> (''escalate'' \<in> fst ` set (history (graph_invoke (builder classify generate store) st))
         \<and> ''handle_queries'' \<in>
             fst ` set (history (graph_invoke (builder classify generate store) st)))"
    by (rule run_cases [where st = st and c = classify and g = generate])
      (simp_all add: run_simps)
qed

theorem negative_sentiment_escalates_witness:
  "(\<exists>fin. result (graph_invoke (builder sample_classify failing_generate sample_store)
        (initial_state ''Terrible service, never again.'')) = Inr fin
      \<and> response fin =
                 Some ''This query has been escalated to a customer service representative due to its negative sentiment.'')
   \<and> map fst (history (graph_invoke (builder sample_classify failing_generate sample_store)
        (initial_state ''Terrible service, never again.''))) =
      [''get_sentiment_and_category'', ''escalate'', ''record_to_database'']"
  using negative_sentiment_escalates
    [where st = "initial_state ''Terrible service, never again.''"
       and q = "''Terrible service, never again.''" and classify = sample_classify
       and cat = "''General''" and generate = failing_generate and store = sample_store]
  by (simp add: initial_state_def sample_classify_def)

section \<open>Classification\<close>




section \<open>Persistence\<close>

text \<open>
  C4. A failure of the store stays inside \<open>record_to_database\<close>: the final State or
  exception of a run and the nodes it invokes are the same for every store, failing
  or not; the node itself never raises and returns no update; and when the store
  fails on the final State the only effect is the printed report of the exception.
\<close>

theorem store_failure_contained:
  "result (graph_invoke (builder classify generate store) st) =
     result (graph_invoke (builder classify generate store') st)
   \<and> history (graph_invoke (builder classify generate store) st) =
     history (graph_invoke (builder classify generate store') st)
   \<and> snd (record_to_database store st) = Inr None
   \<and> (result (graph_invoke (builder classify generate store) st) = Inr fin \<and> store fin = Inl e
        \<longrightarrow> printed (graph_invoke (builder classify generate store) st) =
              [''An error occurred:  '' @ e])"
proof (intro conjI impI)
  show "result (graph_invoke (builder classify generate store) st) =
     result (graph_invoke (builder classify generate store') st)"
    by (rule run_cases [where st = st and c = classify and g = generate])
      (simp_all add: run_simps)
  show "history (graph_invoke (builder classify generate store) st) =
     history (graph_invoke (builder classify generate store') st)"
    by (rule run_cases [where st = st and c = classify and g = generate])
      (simp_all add: run_simps)
  show "snd (record_to_database store st) = Inr None"
    by (simp add: record_to_database_eq)
next
  assume h: "result (graph_invoke (builder classify generate store) st) = Inr fin \<and> store fin = Inl e"
  have rep: "report store fin = [''An error occurred:  '' @ e]"
    using h by (simp add: report_def record_to_database_def)
  show "printed (graph_invoke (builder classify generate store) st) =
              [''An error occurred:  '' @ e]"
    by (rule run_cases [where st = st and c = classify and g = generate])
      (use h rep in \<open>auto simp add: run_simps\<close>)
qed

theorem store_failure_contained_witness:
  "result (graph_invoke (builder sample_classify sample_generate failing_store)
       (initial_state ''What are your business hours?'')) =
     result (graph_invoke (builder sample_classify sample_generate sample_store)
       (initial_state ''What are your business hours?''))
   \<and> snd (record_to_database failing_store (initial_state ''What are your business hours?'')) =
       Inr None
   \<and> printed (graph_invoke (builder sample_classify sample_generate failing_store)
       (initial_state ''What are your business hours?'')) =
      [''An error occurred:  ServerSelectionTimeoutError'']"
proof -
  have run: "result (graph_invoke (builder sample_classify sample_generate failing_store)
       (initial_state ''What are your business hours?'')) =
     Inr \<lparr>query = Some ''What are your business hours?'', category = Some ''General'',
          sentiment = Some ''Neutral'',
          response = Some ''Thank you for contacting support.''\<rparr>"
    by (simp add: run_generated [where q = "''What are your business hours?''"
          and sen = "''Neutral''" and cat = "''General''"
          and resp = "''Thank you for contacting support.''"]
        initial_state_def sample_classify_def sample_generate_def)
  show ?thesis
    using store_failure_contained
      [where classify = sample_classify and generate = sample_generate
         and store = failing_store and store' = sample_store
         and st = "initial_state ''What are your business hours?''"
         and fin = "\<lparr>query = Some ''What are your business hours?'',
            category = Some ''General'', sentiment = Some ''Neutral'',
            response = Some ''Thank you for contacting support.''\<rparr>"
         and e = "''ServerSelectionTimeoutError''"]
    by (simp add: run failing_store_def)
qed

section \<open>The terminal step and the response\<close>

text \<open>
  C5. For a run started on a State without a response (as \<^verbatim>\<open>run_agent\<close> starts
  it): the State handed to a node carries a response exactly when that node is the
  terminal one, so no non-terminal step receives a response and the terminal step
  always does; and a completed run has its response set, has invoked exactly one
  terminal step, \<open>record_to_database\<close>, and has invoked it last. The State of a
  step is the State the step receives, the one the library stores together with the
  step it is about to run.
\<close>

theorem response_set_iff_terminal:
  "response st = None \<longrightarrow>
     (\<forall>(n, s) \<in> set (history (graph_invoke (builder classify generate store) st)).
        (response s \<noteq> None) = terminal (builder classify generate store) n)
     \<and> (\<forall>fin. result (graph_invoke (builder classify generate store) st) = Inr fin \<longrightarrow>
          response fin \<noteq> None
          \<and> filter (terminal (builder classify generate store))
              (map fst (history (graph_invoke (builder classify generate store) st))) =
             [''record_to_database'']
          \<and> fst (last (history (graph_invoke (builder classify generate store) st))) =
             ''record_to_database'')"
  by (rule run_cases [where st = st and c = classify and g = generate])
    (simp_all add: run_simps terminal_builder)

theorem response_set_iff_terminal_witness:
  "(\<exists>fin. result (graph_invoke (builder sample_classify sample_generate sample_store)
        (initial_state ''What are your business hours?'')) = Inr fin \<and> response fin \<noteq> None)
   \<and> fst (last (history (graph_invoke (builder sample_classify sample_generate sample_store)
        (initial_state ''What are your business hours?'')))) = ''record_to_database''"
proof -
  have run: "result (graph_invoke (builder sample_classify sample_generate sample_store)
       (initial_state ''What are your business hours?'')) =
     Inr \<lparr>query = Some ''What are your business hours?'', category = Some ''General'',
          sentiment = Some ''Neutral'',
          response = Some ''Thank you for contacting support.''\<rparr>"
    by (simp add: run_generated [where q = "''What are your business hours?''"
          and sen = "''Neutral''" and cat = "''General''"
          and resp = "''Thank you for contacting support.''"]
        initial_state_def sample_classify_def sample_generate_def)
  have fresh: "response (initial_state ''What are your business hours?'') = None"
    by (simp add: initial_state_def)
  show ?thesis
    using response_set_iff_terminal
      [where st = "initial_state ''What are your business hours?''"
         and classify = sample_classify and generate = sample_generate
         and store = sample_store] fresh run
    by blast
qed

section \<open>The query\<close>

text \<open>
  C6, as the code has it. No step checks the query: a run on the empty query hands
  the empty string to the classifier as it would any other and completes with a
  final State, and \<^verbatim>\<open>run_agent\<close> returns normally, whenever the classifier answers
  and, for a sentiment other than \<open>Negative\<close>, the generator answers. A State
  without the query key makes the classification step raise the lookup's
  \<open>KeyError\<close>.
\<close>

theorem empty_query_processed:
  "(classify [] = Inr (Some (QueryDetails sen cat))
      \<and> (sen = ''Negative'' \<or> generate (handle_queries_prompt cat []) = Inr resp) \<longrightarrow>
      result (graph_invoke (builder classify generate store) (initial_state [])) =
        Inr \<lparr>query = Some [], category = Some cat, sentiment = Some sen,
             response = Some (if sen = ''Negative'' then escalation_message else resp)\<rparr>
      \<and> snd (run_agent classify generate store []) = Inr ())
   \<and> get_sentiment_and_category classify (st\<lparr>query := None\<rparr>) = Inl (KeyError ''query'')"
proof (intro conjI impI)
  assume h: "classify [] = Inr (Some (QueryDetails sen cat))
      \<and> (sen = ''Negative'' \<or> generate (handle_queries_prompt cat []) = Inr resp)"
  have q: "query (initial_state []) = Some []"
    by (simp add: initial_state_def)
  show res: "result (graph_invoke (builder classify generate store) (initial_state [])) =
        Inr \<lparr>query = Some [], category = Some cat, sentiment = Some sen,
             response = Some (if sen = ''Negative'' then escalation_message else resp)\<rparr>"
  proof (cases "sen = ''Negative''")
    case True
    with h q show ?thesis
      by (simp add: run_negative [where q = "[]" and cat = cat] initial_state_def)
  next
    case False
    with h q show ?thesis
      by (simp add: run_generated [where q = "[]" and cat = cat and sen = sen and resp = resp]
          initial_state_def)
  qed
  show "snd (run_agent classify generate store []) = Inr ()"
    by (simp add: run_agent_def res getitem_def Let_def)
next
  show "get_sentiment_and_category classify (st\<lparr>query := None\<rparr>) = Inl (KeyError ''query'')"
    by (simp add: get_sentiment_and_category_def)
qed

theorem empty_query_processed_witness:
  "result (graph_invoke (builder sample_classify sample_generate sample_store)
      (initial_state [])) =
     Inr \<lparr>query = Some [], category = Some ''General'', sentiment = Some ''Neutral'',
          response = Some ''Thank you for contacting support.''\<rparr>
   \<and> snd (run_agent sample_classify sample_generate sample_store []) = Inr ()"
  using empty_query_processed
    [where classify = sample_classify and generate = sample_generate and store = sample_store
       and sen = "''Neutral''" and cat = "''General''"
       and resp = "''Thank you for contacting support.''"]
  by (simp add: sample_classify_def sample_generate_def)

text \<open>
  \<^verbatim>\<open>run_agent("")\<close> with capabilities that answer: every line is printed and no
  exception reaches the caller.
\<close>

theorem empty_query_accepted:
  "run_agent sample_classify sample_generate sample_store [] =
     ([''Inserted document ID: 67ece141cbd07acc4db059d5'', ''Query:  '',
       ''Sentiment:  Neutral'', ''Category:  General'',
       ''Response:  Thank you for contacting support.'', ''-x-x-x-x-x-x-x-x-''], Inr ())"
  by (simp add: run_agent_def getitem_def report_def record_to_database_def
      run_generated [where q = "[]" and sen = "''Neutral''" and cat = "''General''"
        and resp = "''Thank you for contacting support.''"]
      initial_state_def sample_classify_def sample_generate_def sample_store_def)

text \<open>
  C7. No node writes the query: the update of the classification step, of
  \<open>escalate\<close> and of \<open>handle_queries\<close> has no \<open>query\<close> key and
  \<open>record_to_database\<close> returns no update, so in every run every node receives the
  query of the initial State and the final State holds it.
\<close>

theorem query_never_written:
  "(\<forall>fin. result (graph_invoke (builder classify generate store) st) = Inr fin \<longrightarrow>
       query fin = query st)
   \<and> (\<forall>(n, s) \<in> set (history (graph_invoke (builder classify generate store) st)).
        query s = query st)
   \<and> (\<forall>w. get_sentiment_and_category classify st' = Inr (Some w) \<longrightarrow> query w = None)
   \<and> (\<forall>w. escalate st' = Inr (Some w) \<longrightarrow> query w = None)
   \<and> (\<forall>w. handle_queries generate st' = Inr (Some w) \<longrightarrow> query w = None)
   \<and> snd (record_to_database store st') = Inr None"
proof -
  have run: "(\<forall>(n, s) \<in> set (history (graph_invoke (builder classify generate store) st)).
        query s = query st)
    \<and> (\<forall>fin. result (graph_invoke (builder classify generate store) st) = Inr fin \<longrightarrow>
       query fin = query st)"
    unfolding graph_invoke_walk
    by (rule walk_keeps_query) (rule builder_node_keeps_query)
  have steps: "(\<forall>w. get_sentiment_and_category classify st' = Inr (Some w) \<longrightarrow> query w = None)
   \<and> (\<forall>w. escalate st' = Inr (Some w) \<longrightarrow> query w = None)
   \<and> (\<forall>w. handle_queries generate st' = Inr (Some w) \<longrightarrow> query w = None)"
    by (auto simp add: get_sentiment_and_category_def escalate_def handle_queries_def
        no_update_def split: option.splits sum.splits)
  have persist: "snd (record_to_database store st') = Inr None"
    by (simp add: record_to_database_eq)
  from run steps persist show ?thesis by blast
qed

theorem query_never_written_witness:
  "(\<exists>fin. result (graph_invoke (builder sample_classify sample_generate sample_store)
        (initial_state ''What are your business hours?'')) = Inr fin
      \<and> query fin = Some ''What are your business hours?'')
   \<and> snd (record_to_database sample_store (initial_state ''What are your business hours?'')) =
      Inr None"
proof -
  have run: "result (graph_invoke (builder sample_classify sample_generate sample_store)
       (initial_state ''What are your business hours?'')) =
     Inr \<lparr>query = Some ''What are your business hours?'', category = Some ''General'',
          sentiment = Some ''Neutral'',
          response = Some ''Thank you for contacting support.''\<rparr>"
    by (simp add: run_generated [where q = "''What are your business hours?''"
          and sen = "''Neutral''" and cat = "''General''"
          and resp = "''Thank you for contacting support.''"]
        initial_state_def sample_classify_def sample_generate_def)
  have start: "query (initial_state ''What are your business hours?'') =
      Some ''What are your business hours?''"
    by (simp add: initial_state_def)
  show ?thesis
    using query_never_written
      [where classify = sample_classify and generate = sample_generate
         and store = sample_store and st = "initial_state ''What are your business hours?''"
         and st' = "initial_state ''What are your business hours?''"]
      run start
    by metis
qed

section \<open>Termination\<close>




section \<open>Persistence leaves the State alone\<close>

text \<open>
  C10. \<open>record_to_database\<close> returns \<^verbatim>\<open>None\<close> whether the store succeeds or
  fails, so a completed run has invoked three nodes, the second is \<open>escalate\<close> or
  \<open>handle_queries\<close>, and the final State is the State handed to
  \<open>record_to_database\<close>: the State the second node received, merged with that
  node's update.
\<close>

theorem persistence_returns_no_update:
  "snd (record_to_database store st') = Inr None
   \<and> (\<forall>fin. result (graph_invoke (builder classify generate store) st) = Inr fin \<longrightarrow>
        (\<exists>n s u.
           history (graph_invoke (builder classify generate store) st) =
             [(''get_sentiment_and_category'', st), (n, s), (''record_to_database'', fin)]
           \<and> (n = ''escalate'' \<and> escalate s = Inr u
              \<or> n = ''handle_queries'' \<and> handle_queries generate s = Inr u)
           \<and> fin = merge_update s u))"
proof (intro conjI)
  show "snd (record_to_database store st') = Inr None"
    by (simp add: record_to_database_eq)
  show "\<forall>fin. result (graph_invoke (builder classify generate store) st) = Inr fin \<longrightarrow>
        (\<exists>n s u.
           history (graph_invoke (builder classify generate store) st) =
             [(''get_sentiment_and_category'', st), (n, s), (''record_to_database'', fin)]
           \<and> (n = ''escalate'' \<and> escalate s = Inr u
              \<or> n = ''handle_queries'' \<and> handle_queries generate s = Inr u)
           \<and> fin = merge_update s u)"
  proof (rule run_cases [where st = st and c = classify and g = generate])
    assume "query st = None"
    then show ?thesis by (simp add: run_no_query)
  next
    fix q e
    assume "query st = Some q" and "classify q = Inl e"
    then show ?thesis by (simp add: run_classifier_raises)
  next
    fix q
    assume "query st = Some q" and "classify q = Inr None"
    then show ?thesis by (simp add: run_no_answer)
  next
    fix q cat
    assume h: "query st = Some q" "classify q = Inr (Some (QueryDetails ''Negative'' cat))"
    show ?thesis
      by (simp add: run_negative [where c = classify, OF h] escalate_def merge_update_response)
  next
    fix q sen cat e
    assume "query st = Some q" and "classify q = Inr (Some (QueryDetails sen cat))"
      and "sen \<noteq> ''Negative''" and "generate (handle_queries_prompt cat q) = Inl e"
    then show ?thesis by (simp add: run_generator_raises)
  next
    fix q sen cat resp
    assume h: "query st = Some q" "classify q = Inr (Some (QueryDetails sen cat))"
      "sen \<noteq> ''Negative''" "generate (handle_queries_prompt cat q) = Inr resp"
    show ?thesis
      using h(1,4)
      by (simp add: run_generated [where c = classify and g = generate, OF h] handle_queries_def merge_update_response)
  qed
qed

theorem persistence_returns_no_update_witness:
  "snd (record_to_database failing_store (initial_state ''Terrible service, never again.'')) =
     Inr None
   \<and> (\<exists>n s u.
        history (graph_invoke (builder sample_classify sample_generate failing_store)
          (initial_state ''Terrible service, never again.'')) =
          [(''get_sentiment_and_category'', initial_state ''Terrible service, never again.''),
           (n, s),
           (''record_to_database'',
            \<lparr>query = Some ''Terrible service, never again.'', category = Some ''General'',
             sentiment = Some ''Negative'', response = Some escalation_message\<rparr>)])"
proof -
  have run: "result (graph_invoke (builder sample_classify sample_generate failing_store)
       (initial_state ''Terrible service, never again.'')) =
     Inr \<lparr>query = Some ''Terrible service, never again.'', category = Some ''General'',
          sentiment = Some ''Negative'', response = Some escalation_message\<rparr>"
    by (simp add: run_negative [where q = "''Terrible service, never again.''"
          and cat = "''General''"]
        initial_state_def sample_classify_def)
  show ?thesis
    using persistence_returns_no_update
      [where classify = sample_classify and generate = sample_generate
         and store = failing_store and st = "initial_state ''Terrible service, never again.''"
         and st' = "initial_state ''Terrible service, never again.''"]
      run
    by blast
qed

end
